theory Spec2Isabelle
  imports
    Complex_Main
    "HOL-Library.Char_ord"
    "HOL-Library.List_Lexorder"
    "HOL-Library.Multiset"
begin

section \<open>The packaging quiz (\<^verbatim>\<open>quiz.py\<close>), embedded\<close>

text \<open>
  The class \<^verbatim>\<open>PackagingQuiz\<close> is embedded function by function. Strings are byte
  lists (\<^typ>\<open>string\<close>, UTF-8), a result dictionary is a record of optional fields
  (a key that is absent is \<open>None\<close>), an exception that leaves a method is the
  \<open>Inl\<close> side of a sum, and everything a method reads from the outside world
  (the file system, the child process, floating-point arithmetic) is an explicit
  argument.
\<close>

subsection \<open>Python strings\<close>

definition ascii_uppercase :: string where
  "ascii_uppercase = ''ABCDEFGHIJKLMNOPQRSTUVWXYZ''"

definition ascii_lowercase :: string where
  "ascii_lowercase = ''abcdefghijklmnopqrstuvwxyz''"

text \<open>
  \<^verbatim>\<open>str.lower()\<close> on the ASCII letters. Python also lowers letters beyond ASCII,
  which are multi-byte sequences here and stay as they are. The markers that
  \<^verbatim>\<open>check_prediction\<close> searches for are ASCII, and the only code points beyond
  ASCII whose lower-case form has an ASCII letter in it are U+0130 (an \<open>i\<close> followed
  by a combining dot) and U+212A (a \<open>k\<close>); neither can complete a marker, so the
  \<^verbatim>\<open>in\<close> tests of \<^verbatim>\<open>check_prediction\<close> give the same answers on both.
\<close>

definition lower_char :: "char \<Rightarrow> char" where
  "lower_char c =
     (case map_of (zip ascii_uppercase ascii_lowercase) c of
        Some d \<Rightarrow> d
      | None \<Rightarrow> c)"

definition lower :: "string \<Rightarrow> string" where
  "lower s = map lower_char s"

text \<open>\<^verbatim>\<open>s.startswith(p)\<close>\<close>

fun startswith :: "string \<Rightarrow> string \<Rightarrow> bool" where
  "startswith s [] = True"
| "startswith [] (p # ps) = False"
| "startswith (c # cs) (p # ps) = (c = p \<and> startswith cs ps)"

text \<open>\<^verbatim>\<open>str(n)\<close> for an integer: decimal digits, with a minus sign when negative.\<close>

fun str_nat :: "nat \<Rightarrow> string" where
  "str_nat n =
     (if n < 10 then [''0123456789'' ! n]
      else str_nat (n div 10) @ [''0123456789'' ! (n mod 10)])"

definition str_int :: "int \<Rightarrow> string" where
  "str_int i = (if i < 0 then CHR ''-'' # str_nat (nat (- i)) else str_nat (nat i))"

text \<open>\<^verbatim>\<open>needle in haystack\<close> on strings: the needle occurs as a contiguous run.\<close>

fun py_in :: "string \<Rightarrow> string \<Rightarrow> bool" where
  "py_in needle [] = (needle = [])"
| "py_in needle (c # cs) = (startswith (c # cs) needle \<or> py_in needle cs)"

subsection \<open>Exceptions and execution results\<close>

text \<open>
  The exceptions that matter to the control flow: \<^verbatim>\<open>subprocess.TimeoutExpired\<close>,
  any other subclass of \<^verbatim>\<open>Exception\<close> (with its \<^verbatim>\<open>str(e)\<close>), and an exception
  that is not a subclass of \<^verbatim>\<open>Exception\<close> (\<^verbatim>\<open>KeyboardInterrupt\<close>,
  \<^verbatim>\<open>SystemExit\<close>), which \<^verbatim>\<open>except Exception\<close> does not catch.
\<close>

datatype py_exception =
    TimeoutExpired
  | ZeroDivisionError
  | OtherException string
  | NonException string

text \<open>
  The dictionary returned by \<^verbatim>\<open>run_test_case\<close> and read by
  \<^verbatim>\<open>check_prediction\<close>: each key is present (\<open>Some\<close>) or absent (\<open>None\<close>).
  The key \<^verbatim>\<open>"output"\<close> is the field \<open>output_text\<close>.
\<close>

record result =
  success :: "bool option"
  returncode :: "int option"
  output_text :: "string option"
  stderr :: "string option"
  error :: "string option"

text \<open>\<^verbatim>\<open>d.get(key, default)\<close>\<close>

definition dict_get :: "'a option \<Rightarrow> 'a \<Rightarrow> 'a" where
  "dict_get v dflt = (case v of Some x \<Rightarrow> x | None \<Rightarrow> dflt)"

subsection \<open>\<^verbatim>\<open>check_prediction\<close>\<close>

definition check_prediction :: "string \<Rightarrow> result \<Rightarrow> bool" where
  "check_prediction prediction res =
     (if prediction = ''skip'' then False
      else
        let actual_success = dict_get (success res) False;
            stderr_l = lower (dict_get (stderr res) []);
            error_l = lower (dict_get (error res) [])
        in
          if prediction = ''success'' then actual_success
          else if prediction = ''importerror'' then
            \<not> actual_success \<and>
              (py_in ''importerror'' stderr_l \<or> py_in ''importerror'' error_l)
          else if prediction = ''modulenotfounderror'' then
            \<not> actual_success \<and>
              (py_in ''modulenotfounderror'' stderr_l \<or> py_in ''no module named'' stderr_l)
          else if prediction = ''attributeerror'' then
            \<not> actual_success \<and>
              (py_in ''attributeerror'' stderr_l \<or> py_in ''attributeerror'' error_l)
          else if prediction = ''syntaxerror'' then
            \<not> actual_success \<and>
              (py_in ''syntaxerror'' stderr_l \<or> py_in ''syntaxerror'' error_l)
          else if prediction = ''other'' then
            \<not> actual_success \<and>
              \<not> list_ex (\<lambda>err. py_in err stderr_l)
                  [''importerror'', ''modulenotfounderror'', ''attributeerror'', ''syntaxerror'']
          else False)"

subsection \<open>The quiz object\<close>

text \<open>The attributes set by \<^verbatim>\<open>__init__\<close>; the path is kept as its string.\<close>

record quiz =
  test_cases_dir :: string
  score :: int
  total_questions :: int

definition init_quiz :: "string \<Rightarrow> quiz" where
  "init_quiz dir = \<lparr>test_cases_dir = dir, score = 0, total_questions = 0\<rparr>"

subsection \<open>\<^verbatim>\<open>get_test_cases\<close>\<close>

text \<open>
  What the method reads from the file system: whether the root exists, and what
  \<^verbatim>\<open>iterdir()\<close> yields there, in the order the operating system gives: an
  exception (the root is a file, or may not be read), or the entries directly under
  the root, each with its name and the answer of \<^verbatim>\<open>is_dir()\<close>.
\<close>

record file_system =
  root_exists :: bool
  iterdir :: "py_exception + (string \<times> bool) list"

text \<open>
  The method returns the lines it prints and then its value or the exception that
  leaves it. A returned path \<^verbatim>\<open>root / name\<close> is represented by \<open>name\<close>: POSIX
  paths with the same parent compare as their names do, and strings compare by code
  point, which on UTF-8 bytes is the lexicographic order of \<^typ>\<open>string\<close>.
\<close>

definition get_test_cases :: "quiz \<Rightarrow> file_system \<Rightarrow> string list \<times> (py_exception + string list)" where
  "get_test_cases q fs =
     (if \<not> root_exists fs then
        ([''Error: Test cases directory '' @ [CHR 0x27] @ test_cases_dir q @ [CHR 0x27]
            @ '' not found!''],
         Inr [])
      else
        (case iterdir fs of
           Inl e \<Rightarrow> ([], Inl e)
         | Inr entries \<Rightarrow>
             ([], Inr (sort [name. (name, is_dir) \<leftarrow> entries,
                               is_dir \<and> \<not> startswith name ''.'']))))"

subsection \<open>\<^verbatim>\<open>run_test_case\<close>\<close>

text \<open>
  What \<^verbatim>\<open>subprocess.run\<close> does: the child runs to completion (its return code,
  standard output and standard error), or the call raises.
\<close>

datatype run_outcome =
    Completed int string string
  | Raised py_exception

text \<open>
  The world around one call: whether creating the temporary directory and copying
  the tree raise, which file names exist in the copied root, and what running a
  given entry file with a given timeout does.
\<close>

record world =
  make_tempdir :: "py_exception option"
  copytree :: "py_exception option"
  file_exists :: "string \<Rightarrow> bool"
  subprocess_run :: "string \<Rightarrow> nat \<Rightarrow> run_outcome"

text \<open>The calls the method makes on the world, in order.\<close>

datatype action =
    MakeTempDir
  | CopyTree
  | Exists string
  | SubprocessRun string nat

text \<open>The calls that start a child process.\<close>

fun is_subprocess_run :: "action \<Rightarrow> bool" where
  "is_subprocess_run (SubprocessRun f t) = True"
| "is_subprocess_run a = False"

definition main_files :: "string list" where
  "main_files = [''main.py'', ''run.py'', ''test.py'']"

text \<open>The \<^verbatim>\<open>for filename in main_files\<close> loop with its \<^verbatim>\<open>break\<close>.\<close>

fun find_main_file :: "(string \<Rightarrow> bool) \<Rightarrow> string list \<Rightarrow> action list \<times> string option" where
  "find_main_file ex [] = ([], None)"
| "find_main_file ex (filename # rest) =
     (if ex filename then ([Exists filename], Some filename)
      else (case find_main_file ex rest of
              (probes, found) \<Rightarrow> (Exists filename # probes, found)))"

definition no_main_file_result :: result where
  "no_main_file_result =
     \<lparr>success = Some False, returncode = None, output_text = Some [], stderr = Some [],
      error = Some ''No main execution file found (main.py, run.py, or test.py)''\<rparr>"

definition completed_result :: "int \<Rightarrow> string \<Rightarrow> string \<Rightarrow> result" where
  "completed_result rc out err =
     \<lparr>success = Some (rc = 0), returncode = Some rc, output_text = Some out,
      stderr = Some err, error = None\<rparr>"

definition timeout_result :: result where
  "timeout_result =
     \<lparr>success = Some False, returncode = None, output_text = Some [], stderr = Some [],
      error = Some ''Test timed out (10 seconds)''\<rparr>"

definition failed_result :: "string \<Rightarrow> result" where
  "failed_result msg =
     \<lparr>success = Some False, returncode = None, output_text = Some [], stderr = Some [],
      error = Some (''Failed to run test: '' @ msg)\<rparr>"

text \<open>
  The \<^verbatim>\<open>try\<close> statement around \<^verbatim>\<open>subprocess.run\<close>: first
  \<^verbatim>\<open>except subprocess.TimeoutExpired\<close>, then \<^verbatim>\<open>except Exception as e\<close>; anything
  else leaves the method.
\<close>

fun run_main_file :: "run_outcome \<Rightarrow> py_exception + result" where
  "run_main_file (Completed rc out err) = Inr (completed_result rc out err)"
| "run_main_file (Raised TimeoutExpired) = Inr timeout_result"
| "run_main_file (Raised ZeroDivisionError) = Inr (failed_result ''division by zero'')"
| "run_main_file (Raised (OtherException msg)) = Inr (failed_result msg)"
| "run_main_file (Raised (NonException msg)) = Inl (NonException msg)"

text \<open>
  The method returns the calls it made and its value or the exception that leaves
  it. Removing the temporary directory when the \<^verbatim>\<open>with\<close> block is left is not
  modelled.
\<close>

definition run_test_case :: "world \<Rightarrow> action list \<times> (py_exception + result)" where
  "run_test_case w =
     (case make_tempdir w of
        Some e \<Rightarrow> ([MakeTempDir], Inl e)
      | None \<Rightarrow>
         (case copytree w of
            Some e \<Rightarrow> ([MakeTempDir, CopyTree], Inl e)
          | None \<Rightarrow>
             (case find_main_file (file_exists w) main_files of
                (probes, None) \<Rightarrow> ([MakeTempDir, CopyTree] @ probes, Inr no_main_file_result)
              | (probes, Some main_file) \<Rightarrow>
                  ([MakeTempDir, CopyTree] @ probes @ [SubprocessRun main_file 10],
                   run_main_file (subprocess_run w main_file 10)))))"

subsection \<open>The scoring loop of \<^verbatim>\<open>run_quiz\<close>\<close>



subsection \<open>\<^verbatim>\<open>display_final_score\<close>\<close>

text \<open>
  Python's floating-point numbers are a type parameter \<open>'f\<close>, with the operations
  the method uses on them: \<^verbatim>\<open>a / b\<close> on integers with \<open>b\<close> not zero, \<^verbatim>\<open>x * n\<close>
  and \<^verbatim>\<open>x >= n\<close> with an integer \<open>n\<close>, and the format \<^verbatim>\<open>{x:.1f}\<close>.
\<close>

record 'f float_ops =
  truediv :: "int \<Rightarrow> int \<Rightarrow> 'f"
  times_int :: "'f \<Rightarrow> int \<Rightarrow> 'f"
  ge_int :: "'f \<Rightarrow> int \<Rightarrow> bool"
  format_1f :: "'f \<Rightarrow> string"

text \<open>\<^verbatim>\<open>a / b\<close> raises \<^verbatim>\<open>ZeroDivisionError\<close> when \<open>b\<close> is zero.\<close>

definition py_truediv :: "'f float_ops \<Rightarrow> int \<Rightarrow> int \<Rightarrow> py_exception + 'f" where
  "py_truediv ops a b = (if b = 0 then Inl ZeroDivisionError else Inr (truediv ops a b))"

definition msg_excellent :: string where
  "msg_excellent =
     [CHR 0xF0, CHR 0x9F, CHR 0x8F, CHR 0x86] @ '' Excellent! You're a Python packaging expert!''"

definition msg_good :: string where
  "msg_good =
     [CHR 0xF0, CHR 0x9F, CHR 0x91, CHR 0x8D]
       @ '' Good job! You have a solid understanding of Python packaging.''"

definition msg_not_bad :: string where
  "msg_not_bad =
     [CHR 0xF0, CHR 0x9F, CHR 0x93, CHR 0x9A]
       @ '' Not bad! Keep studying Python packaging concepts.''"

definition msg_keep_practicing :: string where
  "msg_keep_practicing =
     [CHR 0xF0, CHR 0x9F, CHR 0x92, CHR 0xAA]
       @ '' Keep practicing! Python packaging can be tricky.''"

definition msg_no_questions :: string where
  "msg_no_questions = ''No questions were answered.''"

definition banner :: "string list" where
  "banner = [CHR 0x0A # replicate 60 CHR ''='', ''QUIZ COMPLETE!'', replicate 60 CHR ''='']"

definition thanks :: "string list" where
  "thanks = [CHR 0x0A # ''Thanks for taking the quiz!'']"

text \<open>
  The method returns the strings it prints, one per call of \<^verbatim>\<open>print\<close>, or the
  exception that leaves it.
\<close>

definition display_final_score :: "'f float_ops \<Rightarrow> quiz \<Rightarrow> py_exception + string list" where
  "display_final_score ops q =
     (if total_questions q > 0 then
        (case py_truediv ops (score q) (total_questions q) of
           Inl e \<Rightarrow> Inl e
         | Inr ratio \<Rightarrow>
             (let percentage = times_int ops ratio 100;
                  score_line =
                    ''Your Score: '' @ str_int (score q) @ ''/'' @ str_int (total_questions q)
                      @ '' ('' @ format_1f ops percentage @ ''%)'';
                  verdict =
                    (if ge_int ops percentage 90 then msg_excellent
                     else if ge_int ops percentage 70 then msg_good
                     else if ge_int ops percentage 50 then msg_not_bad
                     else msg_keep_practicing)
              in Inr (banner @ [score_line, verdict] @ thanks)))
      else Inr (banner @ [msg_no_questions] @ thanks))"

subsection \<open>Exact arithmetic in place of floating point\<close>

text \<open>
  An instance of the floating-point operations for running \<open>display_final_score\<close> on
  concrete counters: exact rational arithmetic, and the format with one decimal
  rounded half to even (for a number that is not negative). The rounding of binary
  floating point is not part of it.
\<close>

definition format_1f_exact :: "rat \<Rightarrow> string" where
  "format_1f_exact x =
     (let tenths = x * 10;
          fl = \<lfloor>tenths\<rfloor>;
          frac = tenths - of_int fl;
          r = (if frac > 1 / 2 \<or> (frac = 1 / 2 \<and> odd fl) then fl + 1 else fl)
      in str_int (r div 10) @ ''.'' @ str_int (r mod 10))"

definition exact_ops :: "rat float_ops" where
  "exact_ops =
     \<lparr>truediv = (\<lambda>a b. of_int a / of_int b),
      times_int = (\<lambda>x n. x * of_int n),
      ge_int = (\<lambda>x n. of_int n \<le> x),
      format_1f = format_1f_exact\<rparr>"

subsection \<open>Concrete inputs\<close>

text \<open>
  Result dictionaries: the standard error of a program that imports a module that
  does not exist, of a program that turns that failure into an \<^verbatim>\<open>ImportError\<close> of
  its own, and two results with a marker in the error text only.
\<close>

definition missing_module_result :: result where
  "missing_module_result =
     \<lparr>success = Some False, returncode = Some 1, output_text = Some [],
      stderr = Some ''ModuleNotFoundError: No module named nonexistent_module'',
      error = None\<rparr>"

definition chained_import_result :: result where
  "chained_import_result =
     \<lparr>success = Some False, returncode = Some 1, output_text = Some [],
      stderr = Some (''ModuleNotFoundError: No module named fastjson'' @ [CHR 0x0A]
                      @ ''ImportError: fastjson is required''),
      error = None\<rparr>"

definition error_only_result :: result where
  "error_only_result =
     \<lparr>success = Some False, returncode = None, output_text = Some [], stderr = Some [],
      error = Some ''Failed to run test: ModuleNotFoundError: No module named encodings''\<rparr>"

definition error_only_import_result :: result where
  "error_only_import_result =
     \<lparr>success = Some False, returncode = None, output_text = Some [], stderr = Some [],
      error = Some ''Failed to run test: ImportError''\<rparr>"

text \<open>
  Worlds for one run: the copy of the tree is refused; the interpreter may not be
  started; the test case has no entry file; \<^verbatim>\<open>run.py\<close> never finishes; \<^verbatim>\<open>main.py\<close>
  exits with status 1.
\<close>

definition copy_denied_world :: world where
  "copy_denied_world =
     \<lparr>make_tempdir = None,
      copytree = Some (OtherException ''[Errno 13] Permission denied: secret.py''),
      file_exists = (\<lambda>f. f = ''main.py''),
      subprocess_run = (\<lambda>f t. Completed 0 ''ok'' [])\<rparr>"

definition spawn_denied_world :: world where
  "spawn_denied_world =
     \<lparr>make_tempdir = None, copytree = None,
      file_exists = (\<lambda>f. f = ''main.py''),
      subprocess_run = (\<lambda>f t. Raised (OtherException ''[Errno 13] Permission denied: python''))\<rparr>"

definition no_entry_world :: world where
  "no_entry_world =
     \<lparr>make_tempdir = None, copytree = None,
      file_exists = (\<lambda>f. f = ''helper.py''),
      subprocess_run = (\<lambda>f t. Completed 0 ''ok'' [])\<rparr>"

definition sleeping_world :: world where
  "sleeping_world =
     \<lparr>make_tempdir = None, copytree = None,
      file_exists = (\<lambda>f. f = ''run.py'' \<or> f = ''test.py''),
      subprocess_run = (\<lambda>f t. if f = ''run.py'' then Raised TimeoutExpired else Completed 0 ''ok'' [])\<rparr>"

definition failing_world :: world where
  "failing_world =
     \<lparr>make_tempdir = None, copytree = None,
      file_exists = (\<lambda>f. f = ''main.py''),
      subprocess_run =
        (\<lambda>f t. Completed 1 ''starting'' ''AttributeError: module has no attribute x'')\<rparr>"

text \<open>A root directory listed in two orders, and a root that does not exist.\<close>

definition listed_root :: file_system where
  "listed_root =
     \<lparr>root_exists = True,
      iterdir = Inr [(''02_package_with_init'', True), (''.git'', True), (''README.md'', False),
                     (''01_basic_import_success'', True)]\<rparr>"

definition relisted_root :: file_system where
  "relisted_root =
     \<lparr>root_exists = True,
      iterdir = Inr [(''01_basic_import_success'', True), (''README.md'', False),
                     (''02_package_with_init'', True), (''.git'', True)]\<rparr>"

definition missing_root :: file_system where
  "missing_root = \<lparr>root_exists = False, iterdir = Inl (OtherException ''No such file or directory'')\<rparr>"

section \<open>Properties\<close>

subsection \<open>Strings\<close>

lemma startswith_iff: "startswith s p \<longleftrightarrow> (\<exists>r. s = p @ r)"
  by (induction s p rule: startswith.induct) auto

lemma py_in_iff: "py_in needle hay \<longleftrightarrow> (\<exists>pre post. hay = pre @ needle @ post)"
proof (induction hay)
  case Nil
  then show ?case by auto
next
  case (Cons c cs)
  show ?case
  proof
    assume "py_in needle (c # cs)"
    then consider "startswith (c # cs) needle" | "py_in needle cs" by auto
    then show "\<exists>pre post. c # cs = pre @ needle @ post"
    proof cases
      case 1
      then obtain r where "c # cs = needle @ r" by (auto simp: startswith_iff)
      then have "c # cs = [] @ needle @ r" by simp
      then show ?thesis by blast
    next
      case 2
      then obtain pre post where "cs = pre @ needle @ post" using Cons.IH by blast
      then have "c # cs = (c # pre) @ needle @ post" by simp
      then show ?thesis by blast
    qed
  next
    assume "\<exists>pre post. c # cs = pre @ needle @ post"
    then obtain pre post where eq: "c # cs = pre @ needle @ post" by blast
    show "py_in needle (c # cs)"
    proof (cases pre)
      case Nil
      with eq have "startswith (c # cs) needle" by (auto simp: startswith_iff)
      then show ?thesis by simp
    next
      case (Cons p ps)
      with eq have "cs = ps @ needle @ post" by simp
      then have "py_in needle cs" using Cons.IH by blast
      then show ?thesis by simp
    qed
  qed
qed

subsection \<open>Skipped rounds\<close>

text \<open>
  C8. \<^verbatim>\<open>check_prediction("skip", result)\<close> is false for every result dictionary,
  whatever its success flag, its stderr and its error text, and also when keys are
  missing.
\<close>

theorem check_prediction_skip: "check_prediction ''skip'' res = False"
  by (simp add: check_prediction_def)

subsection \<open>The branches of \<open>check_prediction\<close>\<close>

text \<open>The definitions that evaluate \<open>check_prediction\<close> on a concrete result.\<close>

lemmas eval_defs = check_prediction_def dict_get_def lower_def lower_char_def
  ascii_uppercase_def ascii_lowercase_def

lemma check_prediction_modulenotfounderror:
  "check_prediction ''modulenotfounderror'' res \<longleftrightarrow>
     \<not> dict_get (success res) False \<and>
     (py_in ''modulenotfounderror'' (lower (dict_get (stderr res) [])) \<or>
      py_in ''no module named'' (lower (dict_get (stderr res) [])))"
  by (simp add: check_prediction_def Let_def)

lemma check_prediction_importerror:
  "check_prediction ''importerror'' res \<longleftrightarrow>
     \<not> dict_get (success res) False \<and>
     (py_in ''importerror'' (lower (dict_get (stderr res) [])) \<or>
      py_in ''importerror'' (lower (dict_get (error res) [])))"
  by (simp add: check_prediction_def Let_def)

text \<open>
  The standard error of \<open>chained_import_result\<close> holds the marker
  \<^verbatim>\<open>modulenotfounderror\<close> and the marker \<^verbatim>\<open>importerror\<close>, the result failed, and the
  prediction \<^verbatim>\<open>"importerror"\<close> matches it: no marker has priority over another.
\<close>

theorem module_not_found_no_priority_counterexample:
  "\<not> dict_get (success chained_import_result) False \<and>
   py_in ''modulenotfounderror'' (lower (dict_get (stderr chained_import_result) [])) \<and>
   check_prediction ''importerror'' chained_import_result"
  by (simp add: chained_import_result_def eval_defs)

text \<open>
  C1 (as amended). For every result whose success flag is false (or missing) and whose
  lower-cased stderr contains \<^verbatim>\<open>modulenotfounderror\<close> or \<^verbatim>\<open>no module named\<close>,
  \<^verbatim>\<open>check_prediction("modulenotfounderror", result)\<close> is true, and
  \<^verbatim>\<open>check_prediction("importerror", result)\<close> is true exactly when \<^verbatim>\<open>importerror\<close>
  occurs in the lower-cased stderr or in the lower-cased error text: it is false only
  when that marker is absent from both.
\<close>

theorem module_not_found_marker:
  assumes "\<not> dict_get (success res) False"
    and "py_in ''modulenotfounderror'' (lower (dict_get (stderr res) [])) \<or>
         py_in ''no module named'' (lower (dict_get (stderr res) []))"
  shows "check_prediction ''modulenotfounderror'' res \<and>
         (check_prediction ''importerror'' res \<longleftrightarrow>
            py_in ''importerror'' (lower (dict_get (stderr res) [])) \<or>
            py_in ''importerror'' (lower (dict_get (error res) [])))"
  using assms
  by (simp only: check_prediction_modulenotfounderror check_prediction_importerror) simp

theorem module_not_found_marker_witness:
  "\<not> dict_get (success missing_module_result) False \<and>
   py_in ''modulenotfounderror'' (lower (dict_get (stderr missing_module_result) [])) \<and>
   check_prediction ''modulenotfounderror'' missing_module_result \<and>
   \<not> check_prediction ''importerror'' missing_module_result"
proof -
  have h1: "\<not> dict_get (success missing_module_result) False"
    by (simp add: missing_module_result_def dict_get_def)
  have h2: "py_in ''modulenotfounderror'' (lower (dict_get (stderr missing_module_result) []))"
    by (simp add: missing_module_result_def eval_defs)
  have h3: "\<not> py_in ''importerror'' (lower (dict_get (stderr missing_module_result) []))"
    by (simp add: missing_module_result_def eval_defs)
  have h4: "\<not> py_in ''importerror'' (lower (dict_get (error missing_module_result) []))"
    by (simp add: missing_module_result_def eval_defs)
  from module_not_found_marker [of missing_module_result] h1 h2 h3 h4
  show ?thesis by blast
qed

subsection \<open>Markers in the error text\<close>

text \<open>
  C3. On a failed result with empty stderr whose error text holds
  \<^verbatim>\<open>ModuleNotFoundError: No module named ...\<close>, the prediction
  \<^verbatim>\<open>"modulenotfounderror"\<close> does not match and the prediction \<^verbatim>\<open>"other"\<close> does: these
  two branches read stderr only. The branch for \<^verbatim>\<open>"importerror"\<close> reads the error text
  too, so that on a result whose error text holds \<^verbatim>\<open>ImportError\<close> both
  \<^verbatim>\<open>"importerror"\<close> and \<^verbatim>\<open>"other"\<close> match.
\<close>

theorem error_text_not_consulted:
  "check_prediction ''modulenotfounderror'' error_only_result = False \<and>
   check_prediction ''other'' error_only_result = True \<and>
   check_prediction ''importerror'' error_only_import_result = True \<and>
   check_prediction ''other'' error_only_import_result = True"
  by (simp add: error_only_result_def error_only_import_result_def eval_defs)

subsection \<open>The control flow of \<open>run_test_case\<close>\<close>

lemma find_main_file_probes: "\<not> list_ex is_subprocess_run (fst (find_main_file ex fs))"
  by (induction fs) (auto split: prod.splits)

lemma run_test_case_found:
  assumes "make_tempdir w = None" "copytree w = None"
    and "snd (find_main_file (file_exists w) main_files) = Some f"
  shows "snd (run_test_case w) = run_main_file (subprocess_run w f 10)"
    and "filter is_subprocess_run (fst (run_test_case w)) = [SubprocessRun f 10]"
proof -
  obtain probes where p: "find_main_file (file_exists w) main_files = (probes, Some f)"
    using assms(3) by (cases "find_main_file (file_exists w) main_files") auto
  show "snd (run_test_case w) = run_main_file (subprocess_run w f 10)"
    using assms(1,2) p by (simp add: run_test_case_def)
  have "\<not> list_ex is_subprocess_run probes"
    using find_main_file_probes [of "file_exists w" main_files] p by simp
  then have "filter is_subprocess_run probes = []"
    by (simp add: list_ex_iff filter_empty_conv)
  then show "filter is_subprocess_run (fst (run_test_case w)) = [SubprocessRun f 10]"
    using assms(1,2) p by (simp add: run_test_case_def)
qed

lemma run_test_case_not_found:
  assumes "make_tempdir w = None" "copytree w = None"
    and "snd (find_main_file (file_exists w) main_files) = None"
  shows "snd (run_test_case w) = Inr no_main_file_result"
    and "filter is_subprocess_run (fst (run_test_case w)) = []"
proof -
  obtain probes where p: "find_main_file (file_exists w) main_files = (probes, None)"
    using assms(3) by (cases "find_main_file (file_exists w) main_files") auto
  show "snd (run_test_case w) = Inr no_main_file_result"
    using assms(1,2) p by (simp add: run_test_case_def)
  have "\<not> list_ex is_subprocess_run probes"
    using find_main_file_probes [of "file_exists w" main_files] p by simp
  then have "filter is_subprocess_run probes = []"
    by (simp add: list_ex_iff filter_empty_conv)
  then show "filter is_subprocess_run (fst (run_test_case w)) = []"
    using assms(1,2) p by (simp add: run_test_case_def)
qed

lemma run_main_file_raised:
  assumes "\<forall>m. e \<noteq> NonException m"
  shows "\<exists>msg. run_main_file (Raised e) =
           Inr \<lparr>success = Some False, returncode = None, output_text = Some [],
                stderr = Some [], error = Some msg\<rparr> \<and> msg \<noteq> []"
  using assms by (cases e) (simp_all add: timeout_result_def failed_result_def)

lemma run_main_file_total:
  assumes "\<forall>m. oc \<noteq> Raised (NonException m)"
  shows "\<exists>res. run_main_file oc = Inr res"
proof (cases oc)
  case (Completed rc out err)
  then show ?thesis by simp
next
  case (Raised e)
  with assms show ?thesis by (cases e) simp_all
qed

lemma returncode_run_main_file:
  "run_main_file oc = Inr res \<Longrightarrow>
     (returncode res \<noteq> None) = (\<exists>rc out err. oc = Completed rc out err)"
proof (cases oc)
  case (Completed rc out err)
  assume "run_main_file oc = Inr res"
  with Completed show ?thesis by (auto simp: completed_result_def)
next
  case (Raised e)
  assume "run_main_file oc = Inr res"
  with Raised show ?thesis
    by (cases e) (auto simp: timeout_result_def failed_result_def)
qed

lemma run_test_case_returns:
  assumes "snd (run_test_case w) = Inr res"
  shows "make_tempdir w = None \<and> copytree w = None \<and>
         (case snd (find_main_file (file_exists w) main_files) of
            None \<Rightarrow> res = no_main_file_result
          | Some f \<Rightarrow> run_main_file (subprocess_run w f 10) = Inr res)"
proof -
  have t: "make_tempdir w = None"
    using assms by (cases "make_tempdir w") (simp_all add: run_test_case_def)
  have c: "copytree w = None"
    using assms t by (cases "copytree w") (simp_all add: run_test_case_def)
  show ?thesis
  proof (cases "snd (find_main_file (file_exists w) main_files)")
    case None
    with run_test_case_not_found(1) [OF t c None] assms t c show ?thesis by simp
  next
    case (Some f)
    with run_test_case_found(1) [OF t c Some] assms t c show ?thesis by simp
  qed
qed

subsection \<open>Exceptions in \<open>run_test_case\<close>\<close>

text \<open>
  What the \<^verbatim>\<open>try\<close> statement achieves. When the temporary directory was created and
  the tree was copied, and \<^verbatim>\<open>subprocess.run\<close> raises nothing outside the class
  \<^verbatim>\<open>Exception\<close>, \<open>run_test_case\<close> returns a result; and when \<^verbatim>\<open>subprocess.run\<close>
  raised (the timeout, or a failure to start the child such as a permission failure),
  that result has success false and an error description that is not empty.
\<close>

lemma spawn_exception_caught:
  assumes "make_tempdir w = None" and "copytree w = None"
    and "\<forall>f m. subprocess_run w f 10 \<noteq> Raised (NonException m)"
  shows "\<exists>res. snd (run_test_case w) = Inr res \<and>
           (\<forall>f e. snd (find_main_file (file_exists w) main_files) = Some f \<and>
                   subprocess_run w f 10 = Raised e \<longrightarrow>
                   success res = Some False \<and> (\<exists>msg. error res = Some msg \<and> msg \<noteq> []))"
proof (cases "snd (find_main_file (file_exists w) main_files)")
  case None
  then show ?thesis
    using run_test_case_not_found(1) [OF assms(1,2)] by simp
next
  case (Some f)
  have run: "snd (run_test_case w) = run_main_file (subprocess_run w f 10)"
    by (rule run_test_case_found(1) [OF assms(1,2) Some])
  from assms(3) have "\<forall>m. subprocess_run w f 10 \<noteq> Raised (NonException m)" by blast
  then obtain res where res: "run_main_file (subprocess_run w f 10) = Inr res"
    using run_main_file_total by blast
  have "success res = Some False \<and> (\<exists>msg. error res = Some msg \<and> msg \<noteq> [])"
    if "subprocess_run w f 10 = Raised e" for e
  proof -
    from assms(3) that have "\<forall>m. e \<noteq> NonException m" by metis
    from run_main_file_raised [OF this] res that show ?thesis by auto
  qed
  with run res Some show ?thesis by auto
qed

lemma spawn_exception_caught_example:
  "make_tempdir spawn_denied_world = None \<and> copytree spawn_denied_world = None \<and>
   snd (find_main_file (file_exists spawn_denied_world) main_files) = Some ''main.py'' \<and>
   subprocess_run spawn_denied_world ''main.py'' 10 =
     Raised (OtherException ''[Errno 13] Permission denied: python'') \<and>
   (\<exists>res msg. snd (run_test_case spawn_denied_world) = Inr res \<and>
      success res = Some False \<and> error res = Some msg \<and> msg \<noteq> [])"
proof -
  have h1: "make_tempdir spawn_denied_world = None"
    by (simp add: spawn_denied_world_def)
  have h2: "copytree spawn_denied_world = None"
    by (simp add: spawn_denied_world_def)
  have h3: "\<forall>f m. subprocess_run spawn_denied_world f 10 \<noteq> Raised (NonException m)"
    by (simp add: spawn_denied_world_def)
  have h4: "snd (find_main_file (file_exists spawn_denied_world) main_files) = Some ''main.py''"
    by (simp add: spawn_denied_world_def main_files_def)
  have h5: "subprocess_run spawn_denied_world ''main.py'' 10 =
              Raised (OtherException ''[Errno 13] Permission denied: python'')"
    by (simp add: spawn_denied_world_def)
  from spawn_exception_caught [OF h1 h2 h3] h4 h5
  have "\<exists>res msg. snd (run_test_case spawn_denied_world) = Inr res \<and>
      success res = Some False \<and> error res = Some msg \<and> msg \<noteq> []"
    by blast
  with h1 h2 h4 h5 show ?thesis by blast
qed

text \<open>
  C2. The claim fails on the code when the copy of the tree raises. The copy is made
  before the \<^verbatim>\<open>try\<close> statement, so in \<open>copy_denied_world\<close> the permission failure
  leaves \<open>run_test_case\<close> as an exception and no result is returned; in
  \<open>spawn_denied_world\<close> the same kind of failure, raised by \<^verbatim>\<open>subprocess.run\<close> inside
  the \<^verbatim>\<open>try\<close> statement, is converted into a result with success false and the
  error text \<^verbatim>\<open>Failed to run test: ...\<close>.
\<close>

theorem copytree_exception_escapes:
  "snd (run_test_case copy_denied_world) =
     Inl (OtherException ''[Errno 13] Permission denied: secret.py'') \<and>
   snd (run_test_case spawn_denied_world) =
     Inr \<lparr>success = Some False, returncode = None, output_text = Some [], stderr = Some [],
          error = Some ''Failed to run test: [Errno 13] Permission denied: python''\<rparr>"
  by (simp add: run_test_case_def copy_denied_world_def spawn_denied_world_def main_files_def
      failed_result_def)

subsection \<open>No entry file\<close>

text \<open>
  C4. The entry file is the first of \<^verbatim>\<open>main.py\<close>, \<^verbatim>\<open>run.py\<close>, \<^verbatim>\<open>test.py\<close> that exists
  in the copied root. When none of them exists, \<open>run_test_case\<close> makes the three
  existence checks in that order and no call of \<^verbatim>\<open>subprocess.run\<close>, and returns the
  result with success false, the error text about the missing entry file, and empty
  output and stderr.
\<close>

theorem no_main_file_short_circuit:
  "snd (find_main_file ex main_files) =
     (if ex ''main.py'' then Some ''main.py''
      else if ex ''run.py'' then Some ''run.py''
      else if ex ''test.py'' then Some ''test.py''
      else None) \<and>
   (make_tempdir w = None \<and> copytree w = None \<and>
    \<not> file_exists w ''main.py'' \<and> \<not> file_exists w ''run.py'' \<and> \<not> file_exists w ''test.py''
    \<longrightarrow>
      run_test_case w =
        ([MakeTempDir, CopyTree, Exists ''main.py'', Exists ''run.py'', Exists ''test.py''],
         Inr \<lparr>success = Some False, returncode = None, output_text = Some [],
              stderr = Some [],
              error = Some ''No main execution file found (main.py, run.py, or test.py)''\<rparr>))"
  by (simp add: run_test_case_def main_files_def no_main_file_result_def)

theorem no_main_file_short_circuit_witness:
  "make_tempdir no_entry_world = None \<and> copytree no_entry_world = None \<and>
   \<not> file_exists no_entry_world ''main.py'' \<and> \<not> file_exists no_entry_world ''run.py'' \<and>
   \<not> file_exists no_entry_world ''test.py'' \<and>
   run_test_case no_entry_world =
     ([MakeTempDir, CopyTree, Exists ''main.py'', Exists ''run.py'', Exists ''test.py''],
      Inr \<lparr>success = Some False, returncode = None, output_text = Some [],
           stderr = Some [],
           error = Some ''No main execution file found (main.py, run.py, or test.py)''\<rparr>)"
proof -
  have h: "make_tempdir no_entry_world = None \<and> copytree no_entry_world = None \<and>
      \<not> file_exists no_entry_world ''main.py'' \<and> \<not> file_exists no_entry_world ''run.py'' \<and>
      \<not> file_exists no_entry_world ''test.py''"
    by (simp add: no_entry_world_def)
  from no_main_file_short_circuit [of "file_exists no_entry_world" no_entry_world] h
  show ?thesis by blast
qed

subsection \<open>Timeout and return code\<close>

text \<open>
  C5. With an entry file found, \<open>run_test_case\<close> starts exactly one child process, with
  the timeout 10; when that call raises \<^verbatim>\<open>TimeoutExpired\<close>, the result has success
  false, no return code, empty output and stderr, and the error text
  \<^verbatim>\<open>Test timed out (10 seconds)\<close>. A returned result has that error text exactly when
  the child timed out, and it has a return code exactly when the child ran to
  completion (so none after a timeout, a failure to start, or a missing entry file).
\<close>

theorem timeout_result_distinguished:
  "(make_tempdir w = None \<and> copytree w = None \<and>
    snd (find_main_file (file_exists w) main_files) = Some f \<longrightarrow>
      filter is_subprocess_run (fst (run_test_case w)) = [SubprocessRun f 10] \<and>
      (subprocess_run w f 10 = Raised TimeoutExpired \<longrightarrow>
         snd (run_test_case w) =
           Inr \<lparr>success = Some False, returncode = None, output_text = Some [],
                stderr = Some [], error = Some ''Test timed out (10 seconds)''\<rparr>)) \<and>
   (snd (run_test_case w) = Inr res \<longrightarrow>
      (error res = Some ''Test timed out (10 seconds)'') =
        (\<exists>g. snd (find_main_file (file_exists w) main_files) = Some g \<and>
              subprocess_run w g 10 = Raised TimeoutExpired) \<and>
      (returncode res \<noteq> None) =
        (\<exists>g rc out err. snd (find_main_file (file_exists w) main_files) = Some g \<and>
              subprocess_run w g 10 = Completed rc out err))"
proof -
  have a: "filter is_subprocess_run (fst (run_test_case w)) = [SubprocessRun f 10]"
    if "make_tempdir w = None" "copytree w = None"
       "snd (find_main_file (file_exists w) main_files) = Some f"
    by (rule run_test_case_found(2) [OF that])
  have b: "snd (run_test_case w) =
              Inr \<lparr>success = Some False, returncode = None, output_text = Some [],
                   stderr = Some [], error = Some ''Test timed out (10 seconds)''\<rparr>"
    if "make_tempdir w = None" "copytree w = None"
       "snd (find_main_file (file_exists w) main_files) = Some f"
       "subprocess_run w f 10 = Raised TimeoutExpired"
    using run_test_case_found(1) [OF that(1,2,3)] that(4) by (simp add: timeout_result_def)
  have c: "(error res = Some ''Test timed out (10 seconds)'') =
             (\<exists>g. snd (find_main_file (file_exists w) main_files) = Some g \<and>
                   subprocess_run w g 10 = Raised TimeoutExpired)"
    and d: "(returncode res \<noteq> None) =
             (\<exists>g rc out err. snd (find_main_file (file_exists w) main_files) = Some g \<and>
                   subprocess_run w g 10 = Completed rc out err)"
    if r: "snd (run_test_case w) = Inr res"
  proof -
    note k = run_test_case_returns [OF r]
    show "(error res = Some ''Test timed out (10 seconds)'') =
             (\<exists>g. snd (find_main_file (file_exists w) main_files) = Some g \<and>
                   subprocess_run w g 10 = Raised TimeoutExpired)"
    proof (cases "snd (find_main_file (file_exists w) main_files)")
      case None
      with k show ?thesis by (simp add: no_main_file_result_def)
    next
      case (Some g)
      with k have rm: "run_main_file (subprocess_run w g 10) = Inr res" by simp
      show ?thesis
      proof (cases "subprocess_run w g 10")
        case (Completed rc out err)
        with rm Some show ?thesis by (auto simp: completed_result_def)
      next
        case (Raised e)
        with rm Some show ?thesis
          by (cases e) (auto simp: timeout_result_def failed_result_def)
      qed
    qed
    show "(returncode res \<noteq> None) =
             (\<exists>g rc out err. snd (find_main_file (file_exists w) main_files) = Some g \<and>
                   subprocess_run w g 10 = Completed rc out err)"
    proof (cases "snd (find_main_file (file_exists w) main_files)")
      case None
      with k show ?thesis by (simp add: no_main_file_result_def)
    next
      case (Some g)
      with k have rm: "run_main_file (subprocess_run w g 10) = Inr res" by simp
      from returncode_run_main_file [OF rm] Some show ?thesis by simp
    qed
  qed
  from a b c d show ?thesis by blast
qed

theorem timeout_result_distinguished_witness:
  "make_tempdir sleeping_world = None \<and> copytree sleeping_world = None \<and>
   snd (find_main_file (file_exists sleeping_world) main_files) = Some ''run.py'' \<and>
   subprocess_run sleeping_world ''run.py'' 10 = Raised TimeoutExpired \<and>
   filter is_subprocess_run (fst (run_test_case sleeping_world)) = [SubprocessRun ''run.py'' 10] \<and>
   snd (run_test_case sleeping_world) =
     Inr \<lparr>success = Some False, returncode = None, output_text = Some [],
          stderr = Some [], error = Some ''Test timed out (10 seconds)''\<rparr>"
proof -
  have h: "make_tempdir sleeping_world = None \<and> copytree sleeping_world = None \<and>
      snd (find_main_file (file_exists sleeping_world) main_files) = Some ''run.py''"
    by (simp add: sleeping_world_def main_files_def)
  have t: "subprocess_run sleeping_world ''run.py'' 10 = Raised TimeoutExpired"
    by (simp add: sleeping_world_def)
  from timeout_result_distinguished [of sleeping_world "''run.py''"] h t
  show ?thesis by blast
qed

subsection \<open>A child that runs to completion\<close>

text \<open>
  C6. When the child process runs to completion, the success flag of the result is
  true exactly when the return code is zero and false exactly when it is not; the
  result has no error text, and it holds the captured stderr, the captured output and
  the return code unchanged.
\<close>

theorem completed_process_result:
  assumes "make_tempdir w = None" and "copytree w = None"
    and "snd (find_main_file (file_exists w) main_files) = Some f"
    and "subprocess_run w f 10 = Completed rc out err"
  shows "\<exists>res. snd (run_test_case w) = Inr res \<and>
           (success res = Some True) = (rc = 0) \<and>
           (success res = Some False) = (rc \<noteq> 0) \<and>
           error res = None \<and> stderr res = Some err \<and>
           returncode res = Some rc \<and> output_text res = Some out"
  using run_test_case_found(1) [OF assms(1,2,3)] assms(4)
  by (simp add: completed_result_def)

theorem completed_process_result_witness:
  "make_tempdir failing_world = None \<and> copytree failing_world = None \<and>
   snd (find_main_file (file_exists failing_world) main_files) = Some ''main.py'' \<and>
   subprocess_run failing_world ''main.py'' 10 =
     Completed 1 ''starting'' ''AttributeError: module has no attribute x'' \<and>
   (\<exists>res. snd (run_test_case failing_world) = Inr res \<and>
      success res = Some False \<and> error res = None \<and>
      stderr res = Some ''AttributeError: module has no attribute x'' \<and>
      returncode res = Some 1)"
proof -
  have h1: "make_tempdir failing_world = None" by (simp add: failing_world_def)
  have h2: "copytree failing_world = None" by (simp add: failing_world_def)
  have h3: "snd (find_main_file (file_exists failing_world) main_files) = Some ''main.py''"
    by (simp add: failing_world_def main_files_def)
  have h4: "subprocess_run failing_world ''main.py'' 10 =
     Completed 1 ''starting'' ''AttributeError: module has no attribute x''"
    by (simp add: failing_world_def)
  from completed_process_result [OF h1 h2 h3 h4]
  have "\<exists>res. snd (run_test_case failing_world) = Inr res \<and>
      success res = Some False \<and> error res = None \<and>
      stderr res = Some ''AttributeError: module has no attribute x'' \<and>
      returncode res = Some 1"
    by auto
  with h1 h2 h3 h4 show ?thesis by blast
qed

subsection \<open>Listing the test cases\<close>

lemma visible_dirs_filter:
  "[name. (name, is_dir) \<leftarrow> entries, is_dir \<and> \<not> startswith name ''.''] =
     map fst (filter (\<lambda>e. snd e \<and> \<not> startswith (fst e) ''.'') entries)"
  by (induction entries) auto

lemma startswith_dot: "startswith name ''.'' \<longleftrightarrow> (\<exists>rest. name = CHR ''.'' # rest)"
  by (cases name) auto

lemma get_test_cases_listing:
  assumes "root_exists fs" and "iterdir fs = Inr entries"
  shows "snd (get_test_cases q fs) =
           Inr (sort (map fst (filter (\<lambda>e. snd e \<and> \<not> startswith (fst e) ''.'') entries)))"
  using assms by (simp add: get_test_cases_def visible_dirs_filter)

lemma mset_map_filter_cong:
  "mset xs = mset ys \<Longrightarrow> mset (map f (filter P xs)) = mset (map f (filter P ys))"
  by (metis mset_filter mset_map)

lemma sort_mset_cong:
  fixes xs ys :: "'a::linorder list"
  shows "mset xs = mset ys \<Longrightarrow> sort xs = sort ys"
  by (metis properties_for_sort sorted_sort mset_sort)

text \<open>
  C7. When the root does not exist, \<open>get_test_cases\<close> returns the empty list. When it
  exists, the returned list is sorted ascending and holds exactly the names of the
  entries that are directories and do not begin with a dot, each as often as
  \<^verbatim>\<open>iterdir()\<close> yielded it. Two calls on roots with the same entries, in whatever
  order \<^verbatim>\<open>iterdir()\<close> yields them, return the same list.
\<close>

theorem get_test_cases_sorted_listing:
  "(\<not> root_exists fs \<longrightarrow> snd (get_test_cases q fs) = Inr []) \<and>
   (root_exists fs \<and> iterdir fs = Inr entries \<longrightarrow>
      (\<exists>cases. snd (get_test_cases q fs) = Inr cases \<and> sorted cases \<and>
         set cases = {name. (name, True) \<in> set entries \<and> \<not> (\<exists>rest. name = CHR ''.'' # rest)} \<and>
         length cases = length (filter (\<lambda>e. snd e \<and> \<not> startswith (fst e) ''.'') entries))) \<and>
   (root_exists fs \<and> iterdir fs = Inr entries \<and>
    root_exists fs' \<and> iterdir fs' = Inr entries' \<and> mset entries' = mset entries \<longrightarrow>
      snd (get_test_cases q fs') = snd (get_test_cases q fs))"
proof -
  let ?vis = "\<lambda>es. map fst (filter (\<lambda>e. snd e \<and> \<not> startswith (fst e) ''.'') es)"
  have a: "snd (get_test_cases q fs) = Inr []" if "\<not> root_exists fs"
    using that by (simp add: get_test_cases_def)
  have b: "\<exists>cases. snd (get_test_cases q fs) = Inr cases \<and> sorted cases \<and>
         set cases = {name. (name, True) \<in> set entries \<and> \<not> (\<exists>rest. name = CHR ''.'' # rest)} \<and>
         length cases = length (filter (\<lambda>e. snd e \<and> \<not> startswith (fst e) ''.'') entries)"
    if "root_exists fs" "iterdir fs = Inr entries"
  proof -
    have s: "set (?vis entries) =
            {name. (name, True) \<in> set entries \<and> \<not> (\<exists>rest. name = CHR ''.'' # rest)}"
      by (force simp: startswith_dot)
    have r: "snd (get_test_cases q fs) = Inr (sort (?vis entries))"
      by (rule get_test_cases_listing [OF that])
    have o: "sorted (sort (?vis entries))"
      by (rule sorted_sort)
    have m: "set (sort (?vis entries)) =
            {name. (name, True) \<in> set entries \<and> \<not> (\<exists>rest. name = CHR ''.'' # rest)}"
      using s by (simp only: set_sort)
    have l: "length (sort (?vis entries)) =
            length (filter (\<lambda>e. snd e \<and> \<not> startswith (fst e) ''.'') entries)"
      by (simp only: length_sort length_map)
    show ?thesis
      by (rule exI [of _ "sort (?vis entries)"]) (intro conjI r o m l)
  qed
  have c: "snd (get_test_cases q fs') = snd (get_test_cases q fs)"
    if "root_exists fs" "iterdir fs = Inr entries"
       "root_exists fs'" "iterdir fs' = Inr entries'" "mset entries' = mset entries"
  proof -
    have "sort (?vis entries') = sort (?vis entries)"
      by (rule sort_mset_cong) (rule mset_map_filter_cong [OF that(5)])
    then show ?thesis
      by (simp only: get_test_cases_listing [OF that(1,2)] get_test_cases_listing [OF that(3,4)])
  qed
  show ?thesis
  proof (intro conjI impI)
    assume "\<not> root_exists fs"
    then show "snd (get_test_cases q fs) = Inr []" by (rule a)
  next
    assume "root_exists fs \<and> iterdir fs = Inr entries"
    then have "root_exists fs" and "iterdir fs = Inr entries" by simp_all
    then show "\<exists>cases. snd (get_test_cases q fs) = Inr cases \<and> sorted cases \<and>
         set cases = {name. (name, True) \<in> set entries \<and> \<not> (\<exists>rest. name = CHR ''.'' # rest)} \<and>
         length cases = length (filter (\<lambda>e. snd e \<and> \<not> startswith (fst e) ''.'') entries)"
      by (rule b)
  next
    assume "root_exists fs \<and> iterdir fs = Inr entries \<and>
      root_exists fs' \<and> iterdir fs' = Inr entries' \<and> mset entries' = mset entries"
    then have "root_exists fs" and "iterdir fs = Inr entries"
      and "root_exists fs'" and "iterdir fs' = Inr entries'" and "mset entries' = mset entries"
      by simp_all
    then show "snd (get_test_cases q fs') = snd (get_test_cases q fs)" by (rule c)
  qed
qed

theorem get_test_cases_sorted_listing_witness:
  "root_exists listed_root \<and> root_exists relisted_root \<and> \<not> root_exists missing_root \<and>
   snd (get_test_cases (init_quiz ''test_cases'') listed_root) =
     Inr [''01_basic_import_success'', ''02_package_with_init''] \<and>
   snd (get_test_cases (init_quiz ''test_cases'') relisted_root) =
     snd (get_test_cases (init_quiz ''test_cases'') listed_root) \<and>
   snd (get_test_cases (init_quiz ''test_cases'') missing_root) = Inr []"
proof -
  let ?q = "init_quiz ''test_cases''"
  let ?es = "[(''02_package_with_init'', True), (''.git'', True), (''README.md'', False),
              (''01_basic_import_success'', True)]"
  let ?es' = "[(''01_basic_import_success'', True), (''README.md'', False),
               (''02_package_with_init'', True), (''.git'', True)]"
  have h1: "root_exists listed_root \<and> iterdir listed_root = Inr ?es"
    by (simp add: listed_root_def)
  have h2: "root_exists relisted_root \<and> iterdir relisted_root = Inr ?es'"
    by (simp add: relisted_root_def)
  have h3: "\<not> root_exists missing_root" by (simp add: missing_root_def)
  have h4: "mset ?es' = mset ?es" by (simp add: add_mset_commute)
  have v: "snd (get_test_cases ?q listed_root) =
     Inr [''01_basic_import_success'', ''02_package_with_init'']"
    by (simp add: get_test_cases_def listed_root_def)
  note idem = get_test_cases_sorted_listing
    [of listed_root ?q ?es relisted_root ?es', THEN conjunct2, THEN conjunct2, THEN mp]
  have i: "snd (get_test_cases ?q relisted_root) = snd (get_test_cases ?q listed_root)"
    by (rule idem) (intro conjI h1 [THEN conjunct1] h1 [THEN conjunct2]
      h2 [THEN conjunct1] h2 [THEN conjunct2] h4)
  have m: "snd (get_test_cases ?q missing_root) = Inr []"
    by (rule get_test_cases_sorted_listing [of missing_root ?q, THEN conjunct1, THEN mp])
      (rule h3)
  show ?thesis
    by (intro conjI h1 [THEN conjunct1] h2 [THEN conjunct1] h3 v i m)
qed

subsection \<open>The final score\<close>

text \<open>
  C9. \<open>display_final_score\<close> never raises: the division is reached only when
  \<open>total_questions\<close> is positive, so \<^verbatim>\<open>ZeroDivisionError\<close> cannot occur. When
  \<open>total_questions\<close> is zero (or less) it prints the message that no questions were
  answered; otherwise it prints the score line and the message selected by the tests
  \<^verbatim>\<open>percentage >= 90\<close>, \<^verbatim>\<open>percentage >= 70\<close>, \<^verbatim>\<open>percentage >= 50\<close>, in that order, on
  the percentage \<^verbatim>\<open>(score / total_questions) * 100\<close>.
\<close>

theorem display_final_score_guarded:
  "(\<forall>e. display_final_score ops q \<noteq> Inl e) \<and>
   (total_questions q \<le> 0 \<longrightarrow>
      display_final_score ops q = Inr (banner @ [msg_no_questions] @ thanks)) \<and>
   (total_questions q > 0 \<longrightarrow>
      (\<exists>score_line.
         display_final_score ops q =
           Inr (banner @
                [score_line,
                 (let percentage = times_int ops (truediv ops (score q) (total_questions q)) 100
                  in if ge_int ops percentage 90 then msg_excellent
                     else if ge_int ops percentage 70 then msg_good
                     else if ge_int ops percentage 50 then msg_not_bad
                     else msg_keep_practicing)] @
                thanks)))"
  by (simp add: display_final_score_def py_truediv_def Let_def)

theorem display_final_score_guarded_witness:
  "total_questions \<lparr>test_cases_dir = ''test_cases'', score = 0, total_questions = 0\<rparr> \<le> 0 \<and>
   display_final_score exact_ops \<lparr>test_cases_dir = ''test_cases'', score = 0, total_questions = 0\<rparr> =
     Inr (banner @ [msg_no_questions] @ thanks) \<and>
   total_questions \<lparr>test_cases_dir = ''test_cases'', score = 7, total_questions = 10\<rparr> > 0 \<and>
   (\<exists>score_line.
      display_final_score exact_ops \<lparr>test_cases_dir = ''test_cases'', score = 7, total_questions = 10\<rparr> =
        Inr (banner @ [score_line, msg_good] @ thanks))"
proof -
  let ?q0 = "\<lparr>test_cases_dir = ''test_cases'', score = 0, total_questions = 0\<rparr>"
  let ?q1 = "\<lparr>test_cases_dir = ''test_cases'', score = 7, total_questions = 10\<rparr>"
  have h0: "total_questions ?q0 \<le> 0" by simp
  have h1: "total_questions ?q1 > 0" by simp
  have z: "display_final_score exact_ops ?q0 = Inr (banner @ [msg_no_questions] @ thanks)"
    by (rule display_final_score_guarded [of exact_ops ?q0, THEN conjunct2, THEN conjunct1, THEN mp])
      (rule h0)
  have v: "(let percentage = times_int exact_ops
                  (truediv exact_ops (score ?q1) (total_questions ?q1)) 100
            in if ge_int exact_ops percentage 90 then msg_excellent
               else if ge_int exact_ops percentage 70 then msg_good
               else if ge_int exact_ops percentage 50 then msg_not_bad
               else msg_keep_practicing) = msg_good"
    by (simp add: exact_ops_def)
  from display_final_score_guarded [of exact_ops ?q1, THEN conjunct2, THEN conjunct2, THEN mp, OF h1]
  have p: "\<exists>score_line. display_final_score exact_ops ?q1 =
        Inr (banner @ [score_line, msg_good] @ thanks)"
    unfolding v .
  show ?thesis by (intro conjI h0 z h1 p)
qed

subsection \<open>The score counters\<close>









end
